theory Spec2Isabelle
  imports Main
begin

section \<open>JavaScript values and objects\<close>

text \<open>
  The resolver handles duck-typed records: an instance, a request input and a result are
  plain objects keyed by field name. A value is one of the JavaScript kinds the resolver
  tells apart (with \<^verbatim>\<open>typeof\<close>, truthiness, \<^verbatim>\<open>===\<close>); numbers are kept as
  integers, since no arithmetic is done on them. An object is an association list in
  insertion order, as \<^verbatim>\<open>Object.keys\<close> lists it.
\<close>

datatype jsval =
    JUndefined
  | JNull
  | JBool bool
  | JNum int
  | JStr string
  | JArr "jsval list"
  | JObj "(string \<times> jsval) list"

type_synonym obj = "(string \<times> jsval) list"

text \<open>\<^verbatim>\<open>o[k]\<close>: a missing key reads as \<^verbatim>\<open>undefined\<close>.\<close>

definition getProp :: "obj \<Rightarrow> string \<Rightarrow> jsval" where
  "getProp ob k = (case map_of ob k of None \<Rightarrow> JUndefined | Some v \<Rightarrow> v)"

text \<open>\<^verbatim>\<open>o.hasOwnProperty(k)\<close>.\<close>

definition hasOwnProperty :: "obj \<Rightarrow> string \<Rightarrow> bool" where
  "hasOwnProperty ob k = (k \<in> set (map fst ob))"

text \<open>\<^verbatim>\<open>o[k] = v\<close>: an existing key keeps its place, a new key goes last.\<close>

fun assign :: "string \<Rightarrow> jsval \<Rightarrow> obj \<Rightarrow> obj" where
  "assign k v [] = [(k, v)]"
| "assign k v ((k', v') # kvs) =
     (if k' = k then (k, v) # kvs else (k', v') # assign k v kvs)"

text \<open>\<^verbatim>\<open>delete o[k]\<close>.\<close>

definition deleteProp :: "string \<Rightarrow> obj \<Rightarrow> obj" where
  "deleteProp k ob = filter (\<lambda>kv. fst kv \<noteq> k) ob"

text \<open>\<^verbatim>\<open>Object.keys(o)\<close>.\<close>

definition keysOf :: "obj \<Rightarrow> string list" where
  "keysOf ob = map fst ob"

text \<open>JavaScript truthiness, as \<^verbatim>\<open>!v\<close> and \<^verbatim>\<open>if(v)\<close> read it.\<close>

fun truthy :: "jsval \<Rightarrow> bool" where
  "truthy JUndefined = False"
| "truthy JNull = False"
| "truthy (JBool b) = b"
| "truthy (JNum n) = (n \<noteq> 0)"
| "truthy (JStr s) = (s \<noteq> [])"
| "truthy (JArr _) = True"
| "truthy (JObj _) = True"

text \<open>
  \<^verbatim>\<open>a === v\<close> where \<^verbatim>\<open>v\<close> comes from the request: primitives compare by value; an
  array or an object of the request is a fresh reference, identical to nothing the
  instance holds.
\<close>

fun strictEq :: "jsval \<Rightarrow> jsval \<Rightarrow> bool" where
  "strictEq a (JArr _) = False"
| "strictEq a (JObj _) = False"
| "strictEq a v = (a = v)"

text \<open>
  \<^verbatim>\<open>_.pick(o, keys)\<close> on an object of values: the listed keys that \<^verbatim>\<open>o\<close> has, in
  the order of \<^verbatim>\<open>keys\<close>. (Field names are plain names: no lodash path syntax and no
  name of \<^verbatim>\<open>Object.prototype\<close>.)
\<close>

definition pick :: "obj \<Rightarrow> string list \<Rightarrow> obj" where
  "pick ob ks =
     fold (\<lambda>k acc. case map_of ob k of None \<Rightarrow> acc | Some v \<Rightarrow> assign k v acc) ks []"

text \<open>
  The same on a field table that is only ever asked \<^verbatim>\<open>hasOwnProperty\<close>: the table is
  its list of keys.
\<close>

definition pickKeys :: "string list \<Rightarrow> string list \<Rightarrow> string list" where
  "pickKeys table ks = filter (\<lambda>k. k \<in> set table) ks"

text \<open>\<^verbatim>\<open>xs.join(", ")\<close>.\<close>

fun joinComma :: "string list \<Rightarrow> string" where
  "joinComma [] = []"
| "joinComma [x] = x"
| "joinComma (x # y # ys) = x @ '', '' @ joinComma (y # ys)"

section \<open>Errors and results\<close>

datatype error =
    NotFoundError string
  | AuthorizationError string
  | UserInputError string
  | Error string
  | TypeError
  | TransportError

text \<open>An operation either throws (its promise rejects) or returns a value.\<close>

datatype 'a result = Throw error | Return 'a

section \<open>The policy evaluator and the schema\<close>

datatype action = Access | Write | Read | Create | Destroy | Task

text \<open>
  The match \<^verbatim>\<open>acl.applyRules\<close> returns. An absent \<^verbatim>\<open>allowedFields\<close>,
  \<^verbatim>\<open>allowedRestrictions\<close> or \<^verbatim>\<open>allowedTasks\<close> is \<open>None\<close>.
\<close>

record acl_match =
  allow :: bool
  allowedFields :: "string list option"
  allowedRestrictions :: "string list option"
  allowedTasks :: "string list option"

text \<open>
  The rule table is not part of the resolver: \<^verbatim>\<open>applyRules(targets, action, instance)\<close>
  is a parameter, any function at all.
\<close>

type_synonym acl_rules = "string list \<Rightarrow> action \<Rightarrow> obj option \<Rightarrow> acl_match"

text \<open>
  An element of the model definition, as far as the resolver's own code reads it:
  \<^verbatim>\<open>field\<close> and \<^verbatim>\<open>input\<close> (each possibly absent).
\<close>

record element =
  e_field :: "string option"
  e_input :: "bool option"

record filter_field =
  ff_field :: string
  listingFilterMultiple :: bool

text \<open>
  The resolver (\<^verbatim>\<open>this\<close>). The field classifications come from helper filters outside
  the resolver's file and are parameters: \<open>ownerFields\<close> lists the \<^verbatim>\<open>joinField\<close> of
  each owner field, \<open>stateFields\<close> the \<^verbatim>\<open>field\<close> of each state field (the code
  allows for its absence), \<open>listingSortableFields\<close> the \<^verbatim>\<open>field\<close> of each sortable
  field. \<open>modelInput\<close> is \<^verbatim>\<open>modelDef.input === true\<close>; \<open>queryOrder\<close> is the storage
  engine's \<^verbatim>\<open>orderBy\<close> (a column with \<open>True\<close> sorts descending).
\<close>

record resolver =
  acl :: "acl_rules option"
  modelInput :: bool
  elements :: "element list"
  ownerFields :: "string list"
  stateFields :: "string list option"
  listingFilterFields :: "filter_field list"
  listingSortableFields :: "string list"
  processKey :: string
  queryOrder :: "(string \<times> bool) list \<Rightarrow> obj list \<Rightarrow> obj list"

definition AdditionalAllowedGetFields :: "string list" where
  "AdditionalAllowedGetFields =
     [''id'', ''created'', ''updated'', ''tasks'', ''restrictedFields'']"

text \<open>\<^verbatim>\<open>_allowedReadFieldKeysForInstance\<close>: every element with a (truthy) field name.\<close>

definition allowedReadFieldKeysForInstance :: "element list \<Rightarrow> string list" where
  "allowedReadFieldKeysForInstance es =
     concat (map (\<lambda>e. case e_field e of
                         None \<Rightarrow> []
                       | Some f \<Rightarrow> if f \<noteq> [] then [f] else []) es)"

text \<open>
  \<^verbatim>\<open>_allowedInputKeysForInstanceInput\<close>: every element with a field name whose
  \<^verbatim>\<open>input\<close> is not explicitly false.
\<close>

definition allowedInputKeysForInstanceInput :: "element list \<Rightarrow> string list" where
  "allowedInputKeysForInstanceInput es =
     concat (map (\<lambda>e. case e_field e of
                         None \<Rightarrow> []
                       | Some f \<Rightarrow> if f \<noteq> [] \<and> e_input e \<noteq> Some False then [f] else []) es)"

definition allowedReadFields :: "resolver \<Rightarrow> string list" where
  "allowedReadFields r = allowedReadFieldKeysForInstance (elements r)"

definition allowedInputFields :: "resolver \<Rightarrow> string list" where
  "allowedInputFields r = allowedInputKeysForInstanceInput (elements r)"

section \<open>Identity, policy targets and the restriction rule\<close>

text \<open>The resolved identity of the caller (\<open>None\<close>: no user in the request context).\<close>

datatype identity = Identity (user_id: string)

text \<open>\<^verbatim>\<open>user && user.id\<close>: an identity is present and its id is not empty.\<close>

definition authenticated :: "identity option \<Rightarrow> bool" where
  "authenticated user = (case user of None \<Rightarrow> False | Some u \<Rightarrow> user_id u \<noteq> [])"

text \<open>The loop of \<^verbatim>\<open>userToAclTargets\<close> over the owner fields.\<close>

definition ownerLoop :: "resolver \<Rightarrow> identity \<Rightarrow> obj \<Rightarrow> bool" where
  "ownerLoop r u ob =
     fold (\<lambda>joinField isOwner.
             if getProp ob joinField = JStr (user_id u) then True else isOwner)
       (ownerFields r) False"

text \<open>\<^verbatim>\<open>userToAclTargets(user, object)\<close>: the targets and \<^verbatim>\<open>isOwner\<close>.\<close>

definition userToAclTargets ::
  "resolver \<Rightarrow> identity option \<Rightarrow> obj option \<Rightarrow> string list \<times> bool" where
  "userToAclTargets r user object =
     (let targets = [''anonymous''];
          targets = (if authenticated user then targets @ [''administrator''] else targets)
      in case (user, object) of
           (Some u, Some ob) \<Rightarrow>
             if authenticated user then
               (let targets = targets @ [''user''];
                    isOwner = ownerLoop r u ob;
                    targets = (if isOwner then targets @ [''owner''] else targets)
                in (targets, isOwner))
             else (targets, False)
         | _ \<Rightarrow> (targets, False))"

text \<open>\<^verbatim>\<open>_restrictionsApplyToUser(restrictions, isOwner)\<close>.\<close>

definition restrictionsApplyToUser :: "string list option \<Rightarrow> bool \<Rightarrow> bool" where
  "restrictionsApplyToUser restrictions isOwner =
     (case restrictions of
        None \<Rightarrow> True
      | Some rs \<Rightarrow>
          if rs = [] then True
          else if ''all'' \<in> set rs then True
          else (isOwner \<and> ''owner'' \<in> set rs))"

section \<open>Storage and the workflow engine\<close>

text \<open>
  The state the operations act on: the persisted table, the log of persistence writes
  (each \<^verbatim>\<open>save()\<close>, with the object saved) and the log of the mutating requests sent to
  the workflow engine. What the engine answers is an input of each operation that asks it.
\<close>

datatype engine_call =
    DeleteProcessInstance string
  | CompleteTask string "obj option"

record world =
  rows :: "obj list"
  writes :: "obj list"
  engineCalls :: "engine_call list"

text \<open>
  Modelled from the spec: the storage engine's \<^verbatim>\<open>find(id)\<close> (the model class is not part
  of the resolver's file), the row with that id, or nothing.
\<close>

definition find :: "obj list \<Rightarrow> jsval \<Rightarrow> obj option" where
  "find table idv = List.find (\<lambda>row. getProp row ''id'' = idv) table"

text \<open>
  Modelled from the spec: the storage engine's \<^verbatim>\<open>save(instance)\<close> (the model class is
  not part of the resolver's file). The row with the instance's id is replaced by the
  in-memory object, and the write is logged. A save that the storage engine refuses is
  not modelled.
\<close>

definition save :: "obj \<Rightarrow> world \<Rightarrow> world" where
  "save object w =
     w\<lparr>rows := map (\<lambda>row. if getProp row ''id'' = getProp object ''id'' then object else row)
                  (rows w),
       writes := writes w @ [object]\<rparr>"

section \<open>Get\<close>

text \<open>\<^verbatim>\<open>getAllowedReadFields(readAcl, includeAdditionalFields)\<close>, as a list of keys.\<close>

definition getAllowedReadFields ::
  "resolver \<Rightarrow> acl_match option \<Rightarrow> bool \<Rightarrow> string list" where
  "getAllowedReadFields r readAcl includeAdditionalFields =
     (let allowed = (case readAcl of
                       None \<Rightarrow> allowedReadFields r
                     | Some m \<Rightarrow> (case allowedFields m of
                                    None \<Rightarrow> allowedReadFields r
                                  | Some fs \<Rightarrow> pickKeys (allowedReadFields r) fs))
      in if includeAdditionalFields then allowed @ AdditionalAllowedGetFields else allowed)"

text \<open>The copying loop of \<^verbatim>\<open>_getInstance\<close>: a requested field the instance defines.\<close>

definition copyFields :: "obj \<Rightarrow> string list \<Rightarrow> obj \<Rightarrow> obj" where
  "copyFields instance fs r0 =
     fold (\<lambda>f r. if getProp instance f \<noteq> JUndefined then assign f (getProp instance f) r
                 else r) fs r0"

text \<open>\<^verbatim>\<open>_getInstance(instance, aclTargets, topLevelFields)\<close>.\<close>

definition getInstance :: "resolver \<Rightarrow> obj \<Rightarrow> string list \<Rightarrow> string list \<Rightarrow> obj" where
  "getInstance r instance aclTargets topLevelFields =
     (let aclMatch = (case acl r of
                        None \<Rightarrow> None
                      | Some rules \<Rightarrow> Some (rules aclTargets Read (Some instance)))
      in if (case aclMatch of None \<Rightarrow> False | Some m \<Rightarrow> \<not> allow m) then
           [(''id'', getProp instance ''id''),
            (''restrictedFields'', JArr (map JStr (filter (\<lambda>f. f \<noteq> ''id'') topLevelFields)))]
         else
           (let allowed = getAllowedReadFields r aclMatch True;
                filteredRequestedAllowedFields = filter (\<lambda>f. f \<in> set allowed) topLevelFields;
                res = copyFields instance filteredRequestedAllowedFields
                        [(''id'', getProp instance ''id'')];
                restricted = filter (\<lambda>f. f \<notin> set allowed) topLevelFields;
                res = assign ''restrictedFields'' (JArr (map JStr restricted)) res
            in if restricted = [] then deleteProp ''restrictedFields'' res else res))"

text \<open>
  What \<^verbatim>\<open>get\<close> returns: the redacted object, or (returned, not thrown) an error object.
\<close>

datatype get_value = ErrorObject error | Object obj

text \<open>
  \<^verbatim>\<open>get(input, info, context)\<close>: \<open>topLevelFields\<close> is what the field-selection
  introspection gives, \<open>user\<close> what \<^verbatim>\<open>resolveUserForContext\<close> resolves. The
  per-request instance cache and eager relation loading are left out: no decision reads
  them.
\<close>

definition get ::
  "resolver \<Rightarrow> world \<Rightarrow> string \<Rightarrow> string list \<Rightarrow> identity option \<Rightarrow> get_value result" where
  "get r w ident topLevelFields user =
     (case find (rows w) (JStr ident) of
        None \<Rightarrow> Return (ErrorObject (NotFoundError ''Instance not found.''))
      | Some object \<Rightarrow>
          (let (aclTargets, isOwner) = userToAclTargets r user (Some object)
           in case acl r of
                None \<Rightarrow> Return (Object (getInstance r object aclTargets topLevelFields))
              | Some rules \<Rightarrow>
                  (let accessMatch = rules aclTargets Access (Some object)
                   in if \<not> allow accessMatch then
                        Throw (AuthorizationError ''You do not have access to this object.'')
                      else if \<not> restrictionsApplyToUser (allowedRestrictions accessMatch) isOwner then
                        Throw (AuthorizationError ''You do not have access to this object.'')
                      else Return (Object (getInstance r object aclTargets topLevelFields)))))"

section \<open>Update\<close>

text \<open>
  The loop of \<^verbatim>\<open>update\<close> over \<^verbatim>\<open>Object.keys(input)\<close>: an allowed key is assigned to
  the loaded object (a \<^verbatim>\<open>TypeError\<close> when nothing was loaded), any other key is
  collected.
\<close>

fun applyInput ::
  "string list \<Rightarrow> obj \<Rightarrow> string list \<Rightarrow> obj option \<Rightarrow> string list
     \<Rightarrow> error + (obj option \<times> string list)" where
  "applyInput allowed input [] object restrictedFields = Inr (object, restrictedFields)"
| "applyInput allowed input (key # ks) object restrictedFields =
     (if key \<in> set allowed then
        (case object of
           None \<Rightarrow> Inl TypeError
         | Some ob \<Rightarrow>
             applyInput allowed input ks (Some (assign key (getProp input key) ob))
               restrictedFields)
      else applyInput allowed input ks object (restrictedFields @ [key]))"

text \<open>The access and write gates of \<^verbatim>\<open>update\<close>: an error, or the write match.\<close>

definition updateGate ::
  "resolver \<Rightarrow> identity option \<Rightarrow> obj option \<Rightarrow> error + acl_match option" where
  "updateGate r user object =
     (case acl r of
        None \<Rightarrow> Inr None
      | Some rules \<Rightarrow>
          (let (aclTargets, isOwner) = userToAclTargets r user object;
               accessMatch = rules aclTargets Access object
           in if \<not> allow accessMatch then
                Inl (AuthorizationError ''You do not have access to this object.'')
              else if \<not> restrictionsApplyToUser (allowedRestrictions accessMatch) isOwner then
                Inl (AuthorizationError ''You do not have access to this object.'')
              else
                (let aclWriteMatch = rules aclTargets Write object
                 in if \<not> allow aclWriteMatch then
                      Inl (AuthorizationError ''You do not have write access to this object.'')
                    else Inr (Some aclWriteMatch))))"

text \<open>The fields \<^verbatim>\<open>update\<close> may write, given the write match.\<close>

definition writeAllowedFields :: "resolver \<Rightarrow> acl_match option \<Rightarrow> string list" where
  "writeAllowedFields r aclWriteMatch =
     (case aclWriteMatch of
        None \<Rightarrow> allowedInputFields r
      | Some m \<Rightarrow> (case allowedFields m of
                     None \<Rightarrow> allowedInputFields r
                   | Some fs \<Rightarrow> pickKeys (allowedInputFields r) fs))"

text \<open>\<^verbatim>\<open>update(input, info, context)\<close>: the result and the world after the call.\<close>

definition update ::
  "resolver \<Rightarrow> world \<Rightarrow> obj \<Rightarrow> identity option \<Rightarrow> bool result \<times> world" where
  "update r w input user =
     (if \<not> modelInput r then
        (Throw (Error ''Model is not defined as an allowing updates.''), w)
      else
        (let object = find (rows w) (getProp input ''id'')
         in case updateGate r user object of
              Inl e \<Rightarrow> (Throw e, w)
            | Inr aclWriteMatch \<Rightarrow>
                (let input' = deleteProp ''id'' input;
                     allowed = writeAllowedFields r aclWriteMatch
                 in case applyInput allowed input' (keysOf input') object [] of
                      Inl e \<Rightarrow> (Throw e, w)
                    | Inr (object', restrictedFields) \<Rightarrow>
                        if restrictedFields \<noteq> [] then
                          (Throw (AuthorizationError
                                    (''You do not have write access on the following fields: ''
                                       @ joinComma restrictedFields)), w)
                        else
                          (case object' of
                             None \<Rightarrow> (Throw TypeError, w)
                           | Some ob \<Rightarrow> (Return True, save ob w)))))"

section \<open>Destroy\<close>

text \<open>
  A process instance as the workflow engine lists it; an absent \<^verbatim>\<open>id\<close> or
  \<^verbatim>\<open>businessKey\<close> is the empty string (falsy either way).
\<close>

record process_instance =
  pi_id :: string
  businessKey :: string

text \<open>
  \<^verbatim>\<open>s.toLowerCase()\<close>, on ASCII (instance ids are UUIDs): a capital letter, code 65 to
  90, gets the bit of value 32 set.
\<close>

definition lowerChar :: "char \<Rightarrow> char" where
  "lowerChar c =
     (if 65 \<le> (of_char c :: nat) \<and> (of_char c :: nat) \<le> 90
      then (case c of Char b0 b1 b2 b3 b4 b5 b6 b7 \<Rightarrow> Char b0 b1 b2 b3 b4 True b6 b7)
      else c)"

definition toLowerCase :: "string \<Rightarrow> string" where
  "toLowerCase s = map lowerChar s"

text \<open>
  The state fields a request may set: \<^verbatim>\<open>_.pick(state, allowedKeys)\<close>, or nothing when
  no state is given or the schema declares no state field.
\<close>

definition filterState :: "resolver \<Rightarrow> obj option \<Rightarrow> obj option" where
  "filterState r state =
     (let allowedKeys = (case stateFields r of None \<Rightarrow> [] | Some fs \<Rightarrow> fs)
      in case state of
           None \<Rightarrow> None
         | Some s \<Rightarrow> if allowedKeys \<noteq> [] then Some (pick s allowedKeys) else None)"

text \<open>The loop of \<^verbatim>\<open>destroy\<close> over the filtered state: the object and \<^verbatim>\<open>didModify\<close>.\<close>

fun applyState :: "obj \<Rightarrow> string list \<Rightarrow> obj \<Rightarrow> bool \<Rightarrow> obj \<times> bool" where
  "applyState filteredState [] object didModify = (object, didModify)"
| "applyState filteredState (key # ks) object didModify =
     (let v = getProp filteredState key
      in if \<not> strictEq (getProp object key) v
         then applyState filteredState ks (assign key v object) True
         else applyState filteredState ks object didModify)"

text \<open>The access and destroy gates of \<^verbatim>\<open>destroy\<close>: the error thrown, if any.\<close>

definition destroyGate :: "resolver \<Rightarrow> identity option \<Rightarrow> obj \<Rightarrow> error option" where
  "destroyGate r user object =
     (case acl r of
        None \<Rightarrow> None
      | Some rules \<Rightarrow>
          (let (aclTargets, isOwner) = userToAclTargets r user (Some object);
               accessMatch = rules aclTargets Access (Some object)
           in if \<not> allow accessMatch then
                Some (AuthorizationError ''You do not have access to this object.'')
              else if \<not> restrictionsApplyToUser (allowedRestrictions accessMatch) isOwner then
                Some (AuthorizationError ''You do not have access to this object.'')
              else if \<not> allow (rules aclTargets Destroy (Some object)) then
                Some (AuthorizationError
                        ''You do not have the rights allowed to destroy this object.'')
              else None))"

text \<open>
  The test \<^verbatim>\<open>destroy\<close> applies to the first listed process instance: it has an id and a
  business key, and the key is the instance id up to letter case.
\<close>

definition processInstanceMatches :: "process_instance \<Rightarrow> string \<Rightarrow> bool" where
  "processInstanceMatches processInstance ident =
     (pi_id processInstance \<noteq> [] \<and> businessKey processInstance \<noteq> []
      \<and> toLowerCase (businessKey processInstance) = toLowerCase ident)"

text \<open>
  \<^verbatim>\<open>destroy(input, context)\<close> with \<^verbatim>\<open>input = {id, state}\<close>. The workflow engine's
  answers are inputs: \<open>listResponse\<close> is what \<^verbatim>\<open>processInstanceService.list\<close> resolves
  to (\<open>None\<close>: the request failed), \<open>deleteOk\<close> whether the deletion request succeeds.
\<close>

definition destroy ::
  "resolver \<Rightarrow> world \<Rightarrow> string \<Rightarrow> obj option \<Rightarrow> identity option
     \<Rightarrow> process_instance list option \<Rightarrow> bool \<Rightarrow> bool result \<times> world" where
  "destroy r w ident state user listResponse deleteOk =
     (case find (rows w) (JStr ident) of
        None \<Rightarrow> (Throw (Error ''Instance with identifier not found.''), w)
      | Some object \<Rightarrow>
          (case destroyGate r user object of
             Some e \<Rightarrow> (Throw e, w)
           | None \<Rightarrow>
               (let w1 = (case filterState r state of
                            None \<Rightarrow> w
                          | Some filteredState \<Rightarrow>
                              if keysOf filteredState \<noteq> [] then
                                (let (object', didModify) =
                                       applyState filteredState (keysOf filteredState) object False
                                 in if didModify then save object' w else w)
                              else w)
                in case listResponse of
                     None \<Rightarrow>
                       (Throw (Error ''Unable to destroy instance due to business engine error.''),
                        w1)
                   | Some [] \<Rightarrow> (Return False, w1)
                   | Some (processInstance # _) \<Rightarrow>
                       if processInstanceMatches processInstance ident then
                         (if deleteOk then Return True
                          else Throw (Error
                                 ''Unable to destroy instance due to business engine error.''),
                          w1\<lparr>engineCalls := engineCalls w1
                                @ [DeleteProcessInstance (pi_id processInstance)]\<rparr>)
                       else (Return False, w1))))"

section \<open>Tasks\<close>

text \<open>A workflow task, as far as the resolver reads it.\<close>

record task =
  task_id :: string
  taskDefinitionKey :: string

text \<open>The tasks a task match lets through.\<close>

definition filterTasks :: "acl_match option \<Rightarrow> task list \<Rightarrow> task list" where
  "filterTasks tasksAclMatch tasks =
     (case tasksAclMatch of
        None \<Rightarrow> tasks
      | Some m \<Rightarrow> (case allowedTasks m of
                     None \<Rightarrow> tasks
                   | Some allowed \<Rightarrow> filter (\<lambda>t. taskDefinitionKey t \<in> set allowed) tasks))"

text \<open>
  \<^verbatim>\<open>getTasks(instanceID, context)\<close>; \<open>taskResponse\<close> is the task list the engine
  answers with (\<open>None\<close>: the request failed).
\<close>

definition getTasks ::
  "resolver \<Rightarrow> world \<Rightarrow> string \<Rightarrow> identity option \<Rightarrow> task list option \<Rightarrow> task list result" where
  "getTasks r w instanceID user taskResponse =
     (case find (rows w) (JStr instanceID) of
        None \<Rightarrow> Throw (NotFoundError ''Instance with identifier not found.'')
      | Some object \<Rightarrow>
          (let tasksAclMatch =
                 (case acl r of
                    None \<Rightarrow> None
                  | Some rules \<Rightarrow>
                      Some (rules (fst (userToAclTargets r user (Some object))) Task (Some object)))
           in if (case tasksAclMatch of None \<Rightarrow> False | Some m \<Rightarrow> \<not> allow m) then
                Throw (AuthorizationError
                         ''You do not have the rights allowed to destroy this object.'')
              else
                (case taskResponse of
                   None \<Rightarrow>
                     Throw (Error
                       ''Unable to fetch tasks for instance due to business engine error.'')
                 | Some tasks \<Rightarrow> Return (filterTasks tasksAclMatch tasks))))"

text \<open>The access and task gates of \<^verbatim>\<open>completeTask\<close>: an error, or the task match.\<close>

definition completeTaskGate ::
  "resolver \<Rightarrow> identity option \<Rightarrow> obj \<Rightarrow> error + acl_match option" where
  "completeTaskGate r user instance =
     (case acl r of
        None \<Rightarrow> Inr None
      | Some rules \<Rightarrow>
          (let (aclTargets, isOwner) = userToAclTargets r user (Some instance);
               accessMatch = rules aclTargets Access (Some instance)
           in if \<not> allow accessMatch then
                Inl (AuthorizationError ''You do not have access to this object.'')
              else if \<not> restrictionsApplyToUser (allowedRestrictions accessMatch) isOwner then
                Inl (AuthorizationError ''You do not have access to this object.'')
              else
                (let tasksAclMatch = rules aclTargets Task (Some instance)
                 in if \<not> allow tasksAclMatch then
                      Inl (AuthorizationError
                             ''You do not have the rights allowed to destroy this object.'')
                    else Inr (Some tasksAclMatch))))"

text \<open>
  \<^verbatim>\<open>typeof(value) === "string" || typeof(value) === "number" || value === null\<close>.
\<close>

fun forwardedValue :: "jsval \<Rightarrow> bool" where
  "forwardedValue (JStr _) = True"
| "forwardedValue (JNum _) = True"
| "forwardedValue JNull = True"
| "forwardedValue _ = False"

text \<open>
  The loop of \<^verbatim>\<open>completeTask\<close> over the filtered state: the instance, \<^verbatim>\<open>didModify\<close>
  and \<^verbatim>\<open>newVars\<close>.
\<close>

fun applyStateVars ::
  "obj \<Rightarrow> string list \<Rightarrow> obj \<Rightarrow> bool \<Rightarrow> obj \<Rightarrow> obj \<times> bool \<times> obj" where
  "applyStateVars filteredState [] instance didModify newVars = (instance, didModify, newVars)"
| "applyStateVars filteredState (key # ks) instance didModify newVars =
     (let v = getProp filteredState key;
          modify = \<not> strictEq (getProp instance key) v;
          instance = (if modify then assign key v instance else instance);
          didModify = (if modify then True else didModify);
          newVars = (if forwardedValue v then assign key (JObj [(''value'', v)]) newVars
                     else newVars)
      in applyStateVars filteredState ks instance didModify newVars)"

text \<open>
  \<^verbatim>\<open>completeTask({id, taskId, state}, context)\<close>. \<open>taskResponse\<close> is the task list of
  the instance as the engine gives it (\<open>None\<close>: the request failed, which rejects the
  joint load), \<open>completeOk\<close> whether the completion request succeeds. An absent id is the
  empty string.
\<close>

definition completeTask ::
  "resolver \<Rightarrow> world \<Rightarrow> string \<Rightarrow> string \<Rightarrow> obj option \<Rightarrow> identity option
     \<Rightarrow> task list option \<Rightarrow> bool \<Rightarrow> bool result \<times> world" where
  "completeTask r w ident taskId state user taskResponse completeOk =
     (if ident = [] \<or> taskId = [] then
        (Throw (UserInputError ''Complete Task requires an id and taskId to be supplied''), w)
      else case taskResponse of
        None \<Rightarrow> (Throw TransportError, w)
      | Some listed \<Rightarrow>
          (let tasks = filter (\<lambda>t. task_id t = taskId) listed
           in case find (rows w) (JStr ident) of
                None \<Rightarrow> (Throw (Error ''Instance with identifier not found.''), w)
              | Some instance \<Rightarrow>
                  if tasks = [] then
                    (Throw (Error ''Specific task not found for instance.''), w)
                  else
                    (case completeTaskGate r user instance of
                       Inl e \<Rightarrow> (Throw e, w)
                     | Inr tasksAclMatch \<Rightarrow>
                         if filterTasks tasksAclMatch tasks = [] then
                           (Throw (AuthorizationError
                              ''You do not have access to the task associated with the instance.''),
                            w)
                         else
                           (let (variables, w1) =
                                  (case filterState r state of
                                     None \<Rightarrow> (None, w)
                                   | Some filteredState \<Rightarrow>
                                       if keysOf filteredState \<noteq> [] then
                                         (let (instance', didModify, newVars) =
                                                applyStateVars filteredState
                                                  (keysOf filteredState) instance False []
                                          in (Some newVars,
                                              if didModify then save instance' w else w))
                                       else (None, w));
                                w2 = w1\<lparr>engineCalls := engineCalls w1
                                           @ [CompleteTask taskId variables]\<rparr>
                            in (if completeOk then Return True
                                else Throw (Error
                                  ''Unable to complete task for instance due to business engine error.''),
                                w2)))))"

section \<open>List\<close>

text \<open>
  Modelled from the spec: the storage engine's query builder (equality and IN filters,
  OR-combinable predicate groups, ordering). A statement compares a column of the row; a
  group is the body of one \<^verbatim>\<open>where(builder => ...)\<close> callback, its statements chained
  by \<^verbatim>\<open>where\<close> (all hold) or by \<^verbatim>\<open>orWhere\<close> (one holds); the groups of a query are
  joined by \<^verbatim>\<open>where\<close>/\<^verbatim>\<open>andWhere\<close> (all hold).
\<close>

datatype statement = Where string jsval | WhereIn string "jsval list"

datatype where_group = AndGroup "statement list" | OrGroup "statement list"

record query =
  q_where :: "where_group list"
  q_orderBy :: "(string \<times> bool) list"

fun holdsStatement :: "obj \<Rightarrow> statement \<Rightarrow> bool" where
  "holdsStatement row (Where column v) = (getProp row column = v)"
| "holdsStatement row (WhereIn column vs) = (getProp row column \<in> set vs)"

fun holdsGroup :: "obj \<Rightarrow> where_group \<Rightarrow> bool" where
  "holdsGroup row (AndGroup ss) = list_all (holdsStatement row) ss"
| "holdsGroup row (OrGroup ss) = list_ex (holdsStatement row) ss"

definition runQuery :: "resolver \<Rightarrow> query \<Rightarrow> obj list \<Rightarrow> obj list" where
  "runQuery r q table =
     (let matching = filter (\<lambda>row. list_all (holdsGroup row) (q_where q)) table
      in if q_orderBy q = [] then matching else queryOrder r (q_orderBy q) matching)"

text \<open>
  The first \<^verbatim>\<open>where\<close> callback of \<^verbatim>\<open>list\<close>: one statement for each listing filter
  field that the filter map gives a truthy value (an array, for a multiple filter).
\<close>

definition filterStatements :: "resolver \<Rightarrow> obj option \<Rightarrow> statement list" where
  "filterStatements r flt =
     (case flt of
        None \<Rightarrow> []
      | Some fm \<Rightarrow>
          concat (map (\<lambda>f. let v = getProp fm (ff_field f)
                            in if \<not> truthy v then []
                               else if listingFilterMultiple f then
                                 (case v of JArr vs \<Rightarrow> [WhereIn (ff_field f) vs] | _ \<Rightarrow> [])
                               else [Where (ff_field f) v])
                    (listingFilterFields r)))"

text \<open>\<^verbatim>\<open>ownerFieldStatementBuilder\<close>: the join field of each owner field against the user id.\<close>

definition ownerFieldStatements :: "resolver \<Rightarrow> identity \<Rightarrow> statement list" where
  "ownerFieldStatements r u = map (\<lambda>joinField. Where joinField (JStr (user_id u))) (ownerFields r)"

text \<open>The ordering: each sortable field the sort map gives a boolean (true: descending).\<close>

definition sortOrdering :: "resolver \<Rightarrow> obj option \<Rightarrow> (string \<times> bool) list" where
  "sortOrdering r sorting =
     (case sorting of
        None \<Rightarrow> []
      | Some sm \<Rightarrow>
          concat (map (\<lambda>f. if hasOwnProperty sm f
                            then (case getProp sm f of JBool v \<Rightarrow> [(f, v)] | _ \<Rightarrow> [])
                            else [])
                    (listingSortableFields r)))"

text \<open>
  \<^verbatim>\<open>list(input, info, context)\<close> with \<^verbatim>\<open>input = {filter, sorting}\<close>. An absent
  \<^verbatim>\<open>allowedRestrictions\<close> of the access match makes \<^verbatim>\<open>indexOf\<close> throw. The owner
  group is joined by \<^verbatim>\<open>andWhere\<close> or by \<^verbatim>\<open>where\<close>, which the query builder reads
  alike, so the flag \<^verbatim>\<open>addedWhereStatement\<close> decides nothing and is left out; the
  id of an identity is a string, so \<^verbatim>\<open>skipUndefined\<close> drops no statement.
\<close>

definition list ::
  "resolver \<Rightarrow> world \<Rightarrow> obj option \<Rightarrow> obj option \<Rightarrow> string list \<Rightarrow> identity option
     \<Rightarrow> obj list result" where
  "list r w flt sorting topLevelFields user =
     (let access = (case acl r of
                      None \<Rightarrow> Inr (Some [''all''])
                    | Some rules \<Rightarrow>
                        (let accessMatch = rules (fst (userToAclTargets r user None)) Access None
                         in if \<not> allow accessMatch then
                              Inl (AuthorizationError ''You do not have access to this object.'')
                            else Inr (allowedRestrictions accessMatch)));
          filterGroup = AndGroup (filterStatements r flt);
          run = (\<lambda>groups.
                   Return (map (\<lambda>object. getInstance r object
                                           (fst (userToAclTargets r user (Some object)))
                                           topLevelFields)
                             (runQuery r \<lparr>q_where = groups, q_orderBy = sortOrdering r sorting\<rparr>
                                (rows w))))
      in case access of
           Inl e \<Rightarrow> Throw e
         | Inr None \<Rightarrow> Throw TypeError
         | Inr (Some restrictions) \<Rightarrow>
             if ''all'' \<notin> set restrictions then
               (case user of
                  None \<Rightarrow> Throw (AuthorizationError ''You must be a valid user '')
                | Some u \<Rightarrow>
                    if ownerFields r \<noteq> []
                    then run [filterGroup, OrGroup (ownerFieldStatements r u)]
                    else run [filterGroup])
             else run [filterGroup])"

section \<open>Notions the properties are stated with\<close>

text \<open>
  A caller passes the access gate of \<^verbatim>\<open>get\<close> on an object when the model has no ACL, or
  the access match allows and its restrictions apply to the caller.
\<close>

definition accessGate :: "resolver \<Rightarrow> identity option \<Rightarrow> obj \<Rightarrow> bool" where
  "accessGate r user object =
     (case acl r of
        None \<Rightarrow> True
      | Some rules \<Rightarrow>
          allow (rules (fst (userToAclTargets r user (Some object))) Access (Some object))
          \<and> restrictionsApplyToUser
               (allowedRestrictions
                  (rules (fst (userToAclTargets r user (Some object))) Access (Some object)))
               (snd (userToAclTargets r user (Some object))))"

text \<open>
  The read-allowed set: the policy's allowed fields within the schema's read ceiling (the
  whole ceiling when the policy names none, or there is no policy), extended by the five
  fixed fields.
\<close>

definition readAllowed :: "resolver \<Rightarrow> acl_match option \<Rightarrow> string set" where
  "readAllowed r readMatch =
     (case readMatch of
        None \<Rightarrow> set (allowedReadFields r)
      | Some m \<Rightarrow> (case allowedFields m of
                     None \<Rightarrow> set (allowedReadFields r)
                   | Some fs \<Rightarrow> set fs \<inter> set (allowedReadFields r)))
     \<union> {''id'', ''created'', ''updated'', ''tasks'', ''restrictedFields''}"

text \<open>
  A scalar, in the spec's word for the values \<^verbatim>\<open>completeTask\<close> forwards: a string, a
  number or a boolean (the primitive values other than \<^verbatim>\<open>null\<close> and
  \<^verbatim>\<open>undefined\<close>).
\<close>

fun scalarValue :: "jsval \<Rightarrow> bool" where
  "scalarValue (JStr _) = True"
| "scalarValue (JNum _) = True"
| "scalarValue (JBool _) = True"
| "scalarValue _ = False"

section \<open>A sample model\<close>

text \<open>
  A submission with a title, a secret note, a phase (its state field) and a submitter
  (its owner field), two rows owned by two users, and a few rule tables.
\<close>

definition exampleElements :: "element list" where
  "exampleElements =
     [\<lparr>e_field = Some ''title'', e_input = None\<rparr>,
      \<lparr>e_field = Some ''secret'', e_input = Some False\<rparr>,
      \<lparr>e_field = Some ''phase'', e_input = None\<rparr>,
      \<lparr>e_field = Some ''submitterId'', e_input = Some False\<rparr>]"

definition exampleMatch :: "bool \<Rightarrow> acl_match" where
  "exampleMatch a =
     \<lparr>allow = a, allowedFields = None, allowedRestrictions = None, allowedTasks = None\<rparr>"

definition exampleResolver :: "acl_rules option \<Rightarrow> resolver" where
  "exampleResolver rules =
     \<lparr>acl = rules, modelInput = True, elements = exampleElements,
      ownerFields = [''submitterId''], stateFields = Some [''phase'', ''approved''],
      listingFilterFields = [\<lparr>ff_field = ''phase'', listingFilterMultiple = False\<rparr>],
      listingSortableFields = [''title''], processKey = ''submission'',
      queryOrder = (\<lambda>ordering table. table)\<rparr>"

definition exampleRow :: "string \<Rightarrow> string \<Rightarrow> obj" where
  "exampleRow ident owner =
     [(''id'', JStr ident), (''title'', JStr ''On growth''), (''secret'', JStr ''s3cr3t''),
      (''phase'', JStr ''draft''), (''submitterId'', JStr owner)]"

definition exampleWorld :: world where
  "exampleWorld =
     \<lparr>rows = [exampleRow ''i1'' ''u1'', exampleRow ''i2'' ''u2''], writes = [],
      engineCalls = []\<rparr>"

text \<open>Every action is allowed but the one named.\<close>

definition allowAllBut :: "action \<Rightarrow> acl_rules" where
  "allowAllBut denied targets act instance = exampleMatch (act \<noteq> denied)"

text \<open>Access is allowed to owners only; reading is limited to the title.\<close>

definition ownerOnly :: acl_rules where
  "ownerOnly targets act instance =
     \<lparr>allow = True,
      allowedFields = (if act = Read then Some [''title''] else None),
      allowedRestrictions = (if act = Access then Some [''owner''] else None),
      allowedTasks = None\<rparr>"

text \<open>The sample world once the first instance has been moved to the phase \<open>destroyed\<close>.\<close>

definition destroyedWorld :: world where
  "destroyedWorld =
     \<lparr>rows = [assign ''phase'' (JStr ''destroyed'') (exampleRow ''i1'' ''u1''),
              exampleRow ''i2'' ''u2''],
      writes = [assign ''phase'' (JStr ''destroyed'') (exampleRow ''i1'' ''u1'')],
      engineCalls = []\<rparr>"

text \<open>
  Access is open to all; writing is allowed, with the restriction \<open>owner\<close> on the write
  match.
\<close>

definition writeOwnerOnly :: acl_rules where
  "writeOwnerOnly targets act instance =
     \<lparr>allow = True,
      allowedFields = None,
      allowedRestrictions = (if act = Write then Some [''owner''] else Some [''all'']),
      allowedTasks = None\<rparr>"

text \<open>
  Every action is allowed, but an instance in the phase \<open>destroyed\<close> may not be
  destroyed again.
\<close>

definition destroyWhileLive :: acl_rules where
  "destroyWhileLive targets act instance =
     exampleMatch (if act = Destroy
                   then (case instance of
                           None \<Rightarrow> True
                         | Some ob \<Rightarrow> getProp ob ''phase'' \<noteq> JStr ''destroyed'')
                   else True)"

section \<open>Facts about objects\<close>

lemmas example_defs =
  exampleWorld_def exampleRow_def exampleResolver_def exampleElements_def exampleMatch_def
  allowAllBut_def ownerOnly_def

lemmas get_defs =
  find_def getProp_def userToAclTargets_def authenticated_def ownerLoop_def
  restrictionsApplyToUser_def get_def getInstance_def getAllowedReadFields_def
  allowedReadFields_def allowedReadFieldKeysForInstance_def pickKeys_def
  AdditionalAllowedGetFields_def copyFields_def deleteProp_def keysOf_def

lemma map_of_assign: "map_of (assign k v ob) = (map_of ob)(k \<mapsto> v)"
  by (induction ob) (auto simp: fun_eq_iff)

lemma keys_assign: "fst ` set (assign k v ob) = insert k (fst ` set ob)"
  by (simp add: dom_map_of_conv_image_fst [symmetric] map_of_assign)

lemma getProp_assign: "getProp (assign k v ob) k' = (if k' = k then v else getProp ob k')"
  by (simp add: getProp_def map_of_assign)

lemma map_of_deleteProp: "map_of (deleteProp k ob) = (map_of ob)(k := None)"
  by (induction ob) (auto simp: deleteProp_def fun_eq_iff)

lemma keys_deleteProp: "fst ` set (deleteProp k ob) = fst ` set ob - {k}"
  by (auto simp: deleteProp_def)

lemma getProp_deleteProp:
  "getProp (deleteProp k ob) k' = (if k' = k then JUndefined else getProp ob k')"
  by (simp add: getProp_def map_of_deleteProp)

lemma getProp_single: "getProp [(k, v)] k' = (if k' = k then v else JUndefined)"
  by (simp add: getProp_def)

lemma keys_copyFields:
  "fst ` set (copyFields inst fs r0)
     = fst ` set r0 \<union> {f \<in> set fs. getProp inst f \<noteq> JUndefined}"
  unfolding copyFields_def
  by (induction fs arbitrary: r0) (auto simp: keys_assign)

lemma getProp_copyFields:
  "getProp (copyFields inst fs r0) k =
     (if k \<in> set fs \<and> getProp inst k \<noteq> JUndefined then getProp inst k else getProp r0 k)"
  unfolding copyFields_def
  by (induction fs arbitrary: r0) (auto simp: getProp_assign)

lemma find_id: "find table idv = Some ob \<Longrightarrow> getProp ob ''id'' = idv \<and> ob \<in> set table"
  by (auto simp: find_def find_Some_iff)

section \<open>Policy targets\<close>

lemma ownerLoop_iff:
  "ownerLoop r u ob = (\<exists>f\<in>set (ownerFields r). getProp ob f = JStr (user_id u))"
proof -
  have "fold (\<lambda>joinField isOwner. if getProp ob joinField = v then True else isOwner) fs b
          = (b \<or> (\<exists>f\<in>set fs. getProp ob f = v))" for fs b v
    by (induction fs arbitrary: b) auto
  then show ?thesis by (simp add: ownerLoop_def)
qed

text \<open>
  C4, as stated, fails: the target \<open>user\<close> is given only when an instance is passed
  too. An authenticated caller evaluated with no instance (as \<^verbatim>\<open>list\<close> does for its
  access gate) is not a \<open>user\<close>.
\<close>

theorem targets_without_instance_counterexample:
  "authenticated (Some (Identity ''u1''))
   \<and> ''user'' \<notin> set (fst (userToAclTargets (exampleResolver None) (Some (Identity ''u1'')) None))"
  by (simp add: authenticated_def userToAclTargets_def)

text \<open>
  C4, amended: for every identity and instance-or-null, the target set contains
  \<open>anonymous\<close>; it contains \<open>administrator\<close> exactly when the caller is authenticated
  (an identity with a non-empty id); \<open>user\<close> exactly when the caller is authenticated
  and an instance is given; and \<open>owner\<close> exactly when, moreover, the identity's id is the
  value of the join field of some owner field on the instance. The flag \<^verbatim>\<open>isOwner\<close>
  says the same as the target \<open>owner\<close>.
\<close>

theorem acl_targets_characterised:
  "''anonymous'' \<in> set (fst (userToAclTargets r user object))
   \<and> (''administrator'' \<in> set (fst (userToAclTargets r user object)) \<longleftrightarrow> authenticated user)
   \<and> (''user'' \<in> set (fst (userToAclTargets r user object))
        \<longleftrightarrow> authenticated user \<and> object \<noteq> None)
   \<and> (''owner'' \<in> set (fst (userToAclTargets r user object))
        \<longleftrightarrow> (\<exists>u ob. user = Some u \<and> object = Some ob \<and> authenticated user
                    \<and> (\<exists>f\<in>set (ownerFields r). getProp ob f = JStr (user_id u))))
   \<and> (snd (userToAclTargets r user object)
        \<longleftrightarrow> ''owner'' \<in> set (fst (userToAclTargets r user object)))"
  by (cases user; cases object)
     (auto simp: userToAclTargets_def authenticated_def Let_def ownerLoop_iff)

theorem acl_targets_characterised_witness:
  "userToAclTargets (exampleResolver None) (Some (Identity ''u1''))
       (Some (exampleRow ''i1'' ''u1''))
     = ([''anonymous'', ''administrator'', ''user'', ''owner''], True)
   \<and> ''submitterId'' \<in> set (ownerFields (exampleResolver None))
   \<and> getProp (exampleRow ''i1'' ''u1'') ''submitterId'' = JStr (user_id (Identity ''u1''))
   \<and> userToAclTargets (exampleResolver None) (Some (Identity ''u2''))
       (Some (exampleRow ''i1'' ''u1''))
     = ([''anonymous'', ''administrator'', ''user''], False)
   \<and> userToAclTargets (exampleResolver None) None (Some (exampleRow ''i1'' ''u1''))
     = ([''anonymous''], False)"
  using acl_targets_characterised
          [of "exampleResolver None" "Some (Identity ''u1'')" "Some (exampleRow ''i1'' ''u1'')"]
  by (simp add: get_defs example_defs)

section \<open>The restriction rule\<close>

text \<open>
  C1, amended: when the access match on an instance carries a non-empty set of
  restrictions, the restriction rule holds exactly if the set contains \<open>all\<close>, or
  contains \<open>owner\<close> and the caller owns the instance; \<^verbatim>\<open>get\<close> returns only if the
  match allows and the rule holds; and in every other case, whatever \<open>allow\<close> says,
  \<^verbatim>\<open>get\<close> throws the authorization error of a denied caller, as do \<^verbatim>\<open>destroy\<close>,
  \<^verbatim>\<open>update\<close> and \<^verbatim>\<open>completeTask\<close> (once past their input checks), which then
  change nothing.
\<close>

theorem restriction_rule_on_get:
  assumes "find (rows w) (JStr ident) = Some object"
    and "acl r = Some rules"
    and "allowedRestrictions
           (rules (fst (userToAclTargets r user (Some object))) Access (Some object)) = Some rs"
    and "rs \<noteq> []"
  shows "(restrictionsApplyToUser (Some rs) (snd (userToAclTargets r user (Some object)))
            \<longleftrightarrow> ''all'' \<in> set rs
                 \<or> (''owner'' \<in> set rs \<and> snd (userToAclTargets r user (Some object))))
       \<and> ((\<exists>v. get r w ident topLevelFields user = Return v) \<longrightarrow>
             allow (rules (fst (userToAclTargets r user (Some object))) Access (Some object))
             \<and> (''all'' \<in> set rs
                 \<or> (''owner'' \<in> set rs \<and> snd (userToAclTargets r user (Some object)))))
       \<and> (\<not> (''all'' \<in> set rs
                 \<or> (''owner'' \<in> set rs \<and> snd (userToAclTargets r user (Some object)))) \<longrightarrow>
             get r w ident topLevelFields user
               = Throw (AuthorizationError ''You do not have access to this object.'')
             \<and> destroy r w ident state user listResponse deleteOk
               = (Throw (AuthorizationError ''You do not have access to this object.''), w)
             \<and> (modelInput r \<and> getProp input ''id'' = JStr ident \<longrightarrow>
                  update r w input user
                    = (Throw (AuthorizationError ''You do not have access to this object.''), w))
             \<and> (ident \<noteq> [] \<and> taskId \<noteq> [] \<and> filter (\<lambda>t. task_id t = taskId) listed \<noteq> [] \<longrightarrow>
                  completeTask r w ident taskId state user (Some listed) completeOk
                    = (Throw (AuthorizationError ''You do not have access to this object.''), w)))"
  using assms
  apply (intro conjI impI)
  subgoal by (auto simp: restrictionsApplyToUser_def)
  subgoal by (auto simp: get_def Let_def case_prod_beta split: if_splits)
  subgoal by (auto simp: get_def restrictionsApplyToUser_def Let_def case_prod_beta
                split: if_splits)
  subgoal by (auto simp: get_def restrictionsApplyToUser_def Let_def case_prod_beta)
  subgoal by (auto simp: destroy_def destroyGate_def restrictionsApplyToUser_def Let_def
                case_prod_beta)
  subgoal by (auto simp: update_def updateGate_def restrictionsApplyToUser_def Let_def
                case_prod_beta)
  subgoal by (auto simp: completeTask_def completeTaskGate_def restrictionsApplyToUser_def
                Let_def case_prod_beta)
  done

theorem restriction_rule_on_get_witness:
  "find (rows exampleWorld) (JStr ''i1'') = Some (exampleRow ''i1'' ''u1'')
   \<and> acl (exampleResolver (Some ownerOnly)) = Some ownerOnly
   \<and> allowedRestrictions
        (ownerOnly (fst (userToAclTargets (exampleResolver (Some ownerOnly))
                           (Some (Identity ''u2'')) (Some (exampleRow ''i1'' ''u1''))))
           Access (Some (exampleRow ''i1'' ''u1''))) = Some [''owner'']
   \<and> allow (ownerOnly [''anonymous'', ''administrator'', ''user''] Access
               (Some (exampleRow ''i1'' ''u1'')))
   \<and> \<not> snd (userToAclTargets (exampleResolver (Some ownerOnly)) (Some (Identity ''u2''))
               (Some (exampleRow ''i1'' ''u1'')))
   \<and> get (exampleResolver (Some ownerOnly)) exampleWorld ''i1'' [''title'']
         (Some (Identity ''u2''))
       = Throw (AuthorizationError ''You do not have access to this object.'')"
  using restriction_rule_on_get
          [where w = exampleWorld and ident = "''i1''" and object = "exampleRow ''i1'' ''u1''"
             and r = "exampleResolver (Some ownerOnly)" and rules = ownerOnly
             and user = "Some (Identity ''u2'')" and rs = "[''owner'']"
             and topLevelFields = "[''title'']" and state = None and listResponse = "Some []"
             and deleteOk = True and input = "[(''id'', JStr ''i1'')]" and taskId = "''t1''"
             and listed = "[]" and completeOk = True]
  by (simp add: get_defs example_defs)

section \<open>Redaction\<close>

lemma get_passes:
  assumes "find (rows w) (JStr ident) = Some object" and "accessGate r user object"
  shows "get r w ident fs user
           = Return (Object (getInstance r object (fst (userToAclTargets r user (Some object))) fs))"
  using assms
  by (cases "acl r") (simp_all add: get_def accessGate_def Let_def case_prod_beta)

lemma getInstance_allowed:
  assumes "case acl r of None \<Rightarrow> True | Some rules \<Rightarrow> allow (rules targets Read (Some object))"
  shows "getInstance r object targets fs =
    (let allowed = getAllowedReadFields r
                     (map_option (\<lambda>rules. rules targets Read (Some object)) (acl r)) True;
         res = assign ''restrictedFields'' (JArr (map JStr (filter (\<lambda>f. f \<notin> set allowed) fs)))
                 (copyFields object (filter (\<lambda>f. f \<in> set allowed) fs)
                    [(''id'', getProp object ''id'')])
     in if filter (\<lambda>f. f \<notin> set allowed) fs = [] then deleteProp ''restrictedFields'' res else res)"
  using assms by (simp add: getInstance_def Let_def split: option.splits)

lemma getInstance_denied:
  assumes "acl r = Some rules" and "\<not> allow (rules targets Read (Some object))"
  shows "getInstance r object targets fs =
           [(''id'', getProp object ''id''),
            (''restrictedFields'', JArr (map JStr (filter (\<lambda>f. f \<noteq> ''id'') fs)))]"
  using assms by (simp add: getInstance_def)

lemma readAllowed_eq: "set (getAllowedReadFields r m True) = readAllowed r m"
  by (auto simp: getAllowedReadFields_def Let_def pickKeys_def AdditionalAllowedGetFields_def
        readAllowed_def split: option.splits)

lemma getInstance_allowed_props:
  fixes fs :: "string list"
  assumes ok: "case acl r of None \<Rightarrow> True | Some rules \<Rightarrow> allow (rules targets Read (Some object))"
  defines "allowed \<equiv> set (getAllowedReadFields r
                     (map_option (\<lambda>rules. rules targets Read (Some object)) (acl r)) True)"
  defines "res \<equiv> getInstance r object targets fs"
  shows "fst ` set res \<subseteq> {''id'', ''restrictedFields''} \<union> (set fs \<inter> allowed)"
    and "''id'' \<in> fst ` set res"
    and "f \<noteq> ''restrictedFields'' \<Longrightarrow> f \<in> fst ` set res \<Longrightarrow> getProp res f = getProp object f"
    and "f \<noteq> ''restrictedFields'' \<Longrightarrow> f \<in> set fs \<Longrightarrow> f \<in> allowed
           \<Longrightarrow> getProp res f = getProp object f"
    and "filter (\<lambda>f. f \<notin> allowed) fs = [] \<Longrightarrow> ''restrictedFields'' \<notin> fst ` set res"
    and "filter (\<lambda>f. f \<notin> allowed) fs \<noteq> [] \<Longrightarrow>
           getProp res ''restrictedFields'' = JArr (map JStr (filter (\<lambda>f. f \<notin> allowed) fs))"
  unfolding res_def allowed_def getInstance_allowed [OF ok] Let_def
  by (auto simp: keys_assign keys_deleteProp keys_copyFields getProp_assign getProp_deleteProp
        getProp_copyFields getProp_single split: if_splits)

text \<open>
  C10: a \<^verbatim>\<open>get\<close> call that passes the access gate while the read action is denied
  raises nothing; it returns the object made of the instance's id and a
  \<open>restrictedFields\<close> list naming every requested field other than \<open>id\<close>, the
  always-allowed fields included.
\<close>

theorem get_read_denied:
  assumes "find (rows w) (JStr ident) = Some object"
    and "acl r = Some rules"
    and "accessGate r user object"
    and "\<not> allow (rules (fst (userToAclTargets r user (Some object))) Read (Some object))"
  shows "get r w ident topLevelFields user
           = Return (Object [(''id'', JStr ident),
                             (''restrictedFields'',
                              JArr (map JStr (filter (\<lambda>f. f \<noteq> ''id'') topLevelFields)))])"
  using assms find_id [OF assms(1)]
  by (simp add: get_def getInstance_def accessGate_def Let_def case_prod_beta)

theorem get_read_denied_witness:
  "find (rows exampleWorld) (JStr ''i1'') = Some (exampleRow ''i1'' ''u1'')
   \<and> accessGate (exampleResolver (Some (allowAllBut Read))) None (exampleRow ''i1'' ''u1'')
   \<and> \<not> allow (allowAllBut Read [''anonymous''] Read (Some (exampleRow ''i1'' ''u1'')))
   \<and> get (exampleResolver (Some (allowAllBut Read))) exampleWorld ''i1''
         [''id'', ''title'', ''created''] None
       = Return (Object [(''id'', JStr ''i1''),
                         (''restrictedFields'', JArr [JStr ''title'', JStr ''created''])])"
  using get_read_denied
          [of exampleWorld "''i1''" "exampleRow ''i1'' ''u1''"
              "exampleResolver (Some (allowAllBut Read))" "allowAllBut Read" None
              "[''id'', ''title'', ''created'']"]
  by (simp add: get_defs example_defs accessGate_def)

text \<open>
  C7, as stated, fails twice. With the read action denied and only \<open>id\<close> requested, the
  result carries an empty \<open>restrictedFields\<close> list instead of none; and the result
  always holds \<open>id\<close>, requested or not.
\<close>

theorem get_redaction_counterexample:
  "get (exampleResolver (Some (allowAllBut Read))) exampleWorld ''i1'' [''id''] None
     = Return (Object [(''id'', JStr ''i1''), (''restrictedFields'', JArr [])])
   \<and> get (exampleResolver None) exampleWorld ''i1'' [''title''] None
     = Return (Object [(''id'', JStr ''i1''), (''title'', JStr ''On growth'')])
   \<and> ''id'' \<notin> set [''title'']"
  by (simp add: get_defs example_defs)

text \<open>
  C7, amended: every \<^verbatim>\<open>get\<close> call that passes the access gate returns an object that
  carries the instance's id, in which no field outside the read-allowed set (the policy's
  allowed fields within the schema's read ceiling, extended by \<open>id\<close>, \<open>created\<close>,
  \<open>updated\<close>, \<open>tasks\<close>, \<open>restrictedFields\<close>) is a key, and whose \<open>restrictedFields\<close>
  names each such field that was requested. When the read action is allowed (or the model
  has no ACL), the keys of the result are \<open>id\<close>, requested fields of the read-allowed
  set and \<open>restrictedFields\<close>; each key but the last has the instance's value, as has
  every requested field of the read-allowed set; and \<open>restrictedFields\<close> lists exactly
  the requested fields outside the read-allowed set, being left out when there is none.
\<close>

theorem get_redaction:
  fixes topLevelFields :: "string list"
  assumes found: "find (rows w) (JStr ident) = Some object"
    and gate: "accessGate r user object"
  defines "readMatch \<equiv> map_option (\<lambda>rules. rules (fst (userToAclTargets r user (Some object)))
                                               Read (Some object)) (acl r)"
  defines "allowed \<equiv> readAllowed r readMatch"
  shows "\<exists>res. get r w ident topLevelFields user = Return (Object res)
           \<and> getProp res ''id'' = JStr ident
           \<and> (\<forall>f. f \<notin> allowed \<longrightarrow>
                  f \<notin> set (keysOf res)
                  \<and> (f \<in> set topLevelFields \<longrightarrow>
                       (\<exists>xs. getProp res ''restrictedFields'' = JArr xs \<and> JStr f \<in> set xs)))
           \<and> ((case readMatch of None \<Rightarrow> True | Some m \<Rightarrow> allow m) \<longrightarrow>
                  set (keysOf res) \<subseteq> {''id'', ''restrictedFields''} \<union> (set topLevelFields \<inter> allowed)
                  \<and> (\<forall>f\<in>set (keysOf res). f \<noteq> ''restrictedFields'' \<longrightarrow>
                         getProp res f = getProp object f)
                  \<and> (\<forall>f\<in>set topLevelFields \<inter> allowed. f \<noteq> ''restrictedFields'' \<longrightarrow>
                         getProp res f = getProp object f)
                  \<and> (if filter (\<lambda>f. f \<notin> allowed) topLevelFields = []
                      then ''restrictedFields'' \<notin> set (keysOf res)
                      else getProp res ''restrictedFields''
                             = JArr (map JStr (filter (\<lambda>f. f \<notin> allowed) topLevelFields))))"
proof -
  define targets where "targets = fst (userToAclTargets r user (Some object))"
  define res where "res = getInstance r object targets topLevelFields"
  have ret: "get r w ident topLevelFields user = Return (Object res)"
    unfolding res_def targets_def by (rule get_passes [OF found gate])
  have idv: "getProp object ''id'' = JStr ident"
    using find_id [OF found] by simp
  have al: "allowed = set (getAllowedReadFields r
              (map_option (\<lambda>rules. rules targets Read (Some object)) (acl r)) True)"
    by (simp add: allowed_def readMatch_def targets_def readAllowed_eq)
  have fixed: "''id'' \<in> allowed" "''restrictedFields'' \<in> allowed"
    by (simp_all add: allowed_def readAllowed_def)
  show ?thesis
  proof (cases "case acl r of None \<Rightarrow> True | Some rules \<Rightarrow> allow (rules targets Read (Some object))")
    case True
    note p = getInstance_allowed_props [OF True, where fs = topLevelFields, folded res_def al]
    have k: "set (keysOf res) \<subseteq> {''id'', ''restrictedFields''} \<union> (set topLevelFields \<inter> allowed)"
      using p(1) by (simp add: keysOf_def)
    have v1: "\<forall>f\<in>set (keysOf res). f \<noteq> ''restrictedFields'' \<longrightarrow> getProp res f = getProp object f"
      using p(3) by (simp add: keysOf_def)
    have v2: "\<forall>f\<in>set topLevelFields \<inter> allowed. f \<noteq> ''restrictedFields'' \<longrightarrow>
                getProp res f = getProp object f"
      using p(4) by simp
    have rf: "if filter (\<lambda>f. f \<notin> allowed) topLevelFields = []
              then ''restrictedFields'' \<notin> set (keysOf res)
              else getProp res ''restrictedFields''
                     = JArr (map JStr (filter (\<lambda>f. f \<notin> allowed) topLevelFields))"
      using p(5) p(6) by (simp add: keysOf_def)
    have idr: "getProp res ''id'' = JStr ident"
      using p(2) p(3) [of "''id''"] idv by simp
    have sec: "f \<notin> set (keysOf res)
               \<and> (f \<in> set topLevelFields \<longrightarrow>
                    (\<exists>xs. getProp res ''restrictedFields'' = JArr xs \<and> JStr f \<in> set xs))"
      if "f \<notin> allowed" for f
    proof -
      have "f \<notin> set (keysOf res)" using k that fixed by auto
      moreover have "\<exists>xs. getProp res ''restrictedFields'' = JArr xs \<and> JStr f \<in> set xs"
        if "f \<in> set topLevelFields"
      proof -
        have ne: "filter (\<lambda>f. f \<notin> allowed) topLevelFields \<noteq> []"
          using that \<open>f \<notin> allowed\<close> by (auto simp: filter_empty_conv)
        show ?thesis using rf ne that \<open>f \<notin> allowed\<close> by auto
      qed
      ultimately show ?thesis by blast
    qed
    show ?thesis using ret idr sec k v1 v2 rf by blast
  next
    case False
    then obtain rules where a: "acl r = Some rules"
      and d: "\<not> allow (rules targets Read (Some object))"
      by (auto split: option.splits)
    have rm: "\<not> (case readMatch of None \<Rightarrow> True | Some m \<Rightarrow> allow m)"
      using a d by (simp add: readMatch_def targets_def)
    have r': "res = [(''id'', getProp object ''id''),
                     (''restrictedFields'',
                      JArr (map JStr (filter (\<lambda>f. f \<noteq> ''id'') topLevelFields)))]"
      unfolding res_def by (rule getInstance_denied [OF a d])
    have idr: "getProp res ''id'' = JStr ident"
      using idv by (simp add: r' getProp_def)
    have sec: "f \<notin> set (keysOf res)
               \<and> (f \<in> set topLevelFields \<longrightarrow>
                    (\<exists>xs. getProp res ''restrictedFields'' = JArr xs \<and> JStr f \<in> set xs))"
      if "f \<notin> allowed" for f
    proof -
      have "f \<noteq> ''id''" "f \<noteq> ''restrictedFields''" using that fixed by auto
      then show ?thesis by (auto simp: r' keysOf_def getProp_def)
    qed
    show ?thesis using ret idr sec rm by blast
  qed
qed

theorem get_redaction_witness:
  "find (rows exampleWorld) (JStr ''i1'') = Some (exampleRow ''i1'' ''u1'')
   \<and> accessGate (exampleResolver (Some ownerOnly)) (Some (Identity ''u1''))
        (exampleRow ''i1'' ''u1'')
   \<and> readAllowed (exampleResolver (Some ownerOnly))
        (Some (ownerOnly [''anonymous'', ''administrator'', ''user'', ''owner''] Read
                 (Some (exampleRow ''i1'' ''u1''))))
       = {''title'', ''id'', ''created'', ''updated'', ''tasks'', ''restrictedFields''}
   \<and> get (exampleResolver (Some ownerOnly)) exampleWorld ''i1'' [''title'', ''secret'']
         (Some (Identity ''u1''))
       = Return (Object [(''id'', JStr ''i1''), (''title'', JStr ''On growth''),
                         (''restrictedFields'', JArr [JStr ''secret''])])"
  using get_redaction
          [of exampleWorld "''i1''" "exampleRow ''i1'' ''u1''" "exampleResolver (Some ownerOnly)"
              "Some (Identity ''u1'')" "[''title'', ''secret'']"]
  by (auto simp: get_defs example_defs accessGate_def readAllowed_def)

section \<open>Update\<close>

lemmas update_defs =
  update_def updateGate_def writeAllowedFields_def allowedInputFields_def
  allowedInputKeysForInstanceInput_def save_def

lemma applyInput_Some:
  "applyInput allowed input ks (Some ob) acc =
     Inr (Some (fold (\<lambda>k o'. assign k (getProp input k) o')
                  (filter (\<lambda>k. k \<in> set allowed) ks) ob),
          acc @ filter (\<lambda>k. k \<notin> set allowed) ks)"
  by (induction ks arbitrary: ob acc) auto

lemma applyInput_None:
  "applyInput allowed input ks None acc = Inr (ob', restricted) \<Longrightarrow> ob' = None"
  by (induction ks arbitrary: acc) (auto split: if_splits)

lemma update_unchanged:
  "fst (update r w input user) \<noteq> Return True \<Longrightarrow> snd (update r w input user) = w"
  by (auto simp: update_def Let_def split: sum.splits option.splits if_splits prod.splits)

lemma update_success:
  assumes "fst (update r w input user) = Return True"
  shows "\<exists>object writeMatch.
           modelInput r
           \<and> find (rows w) (getProp input ''id'') = Some object
           \<and> updateGate r user (Some object) = Inr writeMatch
           \<and> (\<forall>key\<in>set (keysOf (deleteProp ''id'' input)).
                 key \<in> set (writeAllowedFields r writeMatch))"
proof (cases "find (rows w) (getProp input ''id'')")
  case None
  then show ?thesis using assms
    by (auto simp: update_def Let_def dest!: applyInput_None
          split: sum.splits option.splits if_splits prod.splits)
next
  case (Some object)
  then show ?thesis using assms
    by (auto simp: update_def Let_def applyInput_Some filter_empty_conv
          split: sum.splits option.splits if_splits prod.splits)
qed

text \<open>
  C1, as stated, fails: the rule is applied to the access match alone. The restrictions of
  a write match are never consulted, so a caller who does not own the instance updates it
  under a write match restricted to \<open>owner\<close>.
\<close>

theorem restriction_rule_counterexample:
  "allow (writeOwnerOnly [''anonymous'', ''administrator'', ''user''] Write
            (Some (exampleRow ''i1'' ''u1'')))
   \<and> allowedRestrictions (writeOwnerOnly [''anonymous'', ''administrator'', ''user''] Write
                            (Some (exampleRow ''i1'' ''u1''))) = Some [''owner'']
   \<and> userToAclTargets (exampleResolver (Some writeOwnerOnly)) (Some (Identity ''u2''))
        (Some (exampleRow ''i1'' ''u1''))
       = ([''anonymous'', ''administrator'', ''user''], False)
   \<and> update (exampleResolver (Some writeOwnerOnly)) exampleWorld
         [(''id'', JStr ''i1''), (''title'', JStr ''New'')] (Some (Identity ''u2''))
       = (Return True,
          \<lparr>rows = [assign ''title'' (JStr ''New'') (exampleRow ''i1'' ''u1''),
                    exampleRow ''i2'' ''u2''],
           writes = [assign ''title'' (JStr ''New'') (exampleRow ''i1'' ''u1'')],
           engineCalls = []\<rparr>)"
  by (simp add: update_defs get_defs example_defs writeOwnerOnly_def Let_def)

text \<open>
  C2: on an input-enabled model, for an existing instance and a caller past the access and
  write gates, an \<^verbatim>\<open>update\<close> call whose input has a key (other than \<open>id\<close>) outside
  the write-allowed set (the policy's allowed fields within the schema's input-field
  ceiling, or the whole ceiling when the policy names none) fails with the authorization
  error that names exactly the disallowed keys, in input order, and leaves the persisted
  state as it was. Moreover, whatever the gates decide, such a call always fails and
  persists nothing, so the allowed keys are never applied alone; and no \<^verbatim>\<open>update\<close>
  call that does not return success changes the persisted state.
\<close>

theorem update_all_or_nothing:
  "(fst (update r w input user) \<noteq> Return True \<longrightarrow> snd (update r w input user) = w)
   \<and> ((\<exists>key\<in>set (keysOf (deleteProp ''id'' input)).
          \<forall>object writeMatch.
            find (rows w) (getProp input ''id'') = Some object
            \<longrightarrow> updateGate r user (Some object) = Inr writeMatch
            \<longrightarrow> key \<notin> set (writeAllowedFields r writeMatch))
        \<longrightarrow> (\<exists>e. update r w input user = (Throw e, w)))
   \<and> (modelInput r
        \<and> find (rows w) (getProp input ''id'') = Some object
        \<and> updateGate r user (Some object) = Inr writeMatch
        \<and> (\<exists>key\<in>set (keysOf (deleteProp ''id'' input)).
               key \<notin> set (writeAllowedFields r writeMatch))
        \<longrightarrow> update r w input user
              = (Throw (AuthorizationError
                   (''You do not have write access on the following fields: ''
                      @ joinComma (filter (\<lambda>key. key \<notin> set (writeAllowedFields r writeMatch))
                                     (keysOf (deleteProp ''id'' input))))), w))"
proof (intro conjI impI)
  show "snd (update r w input user) = w" if "fst (update r w input user) \<noteq> Return True"
    using that by (rule update_unchanged)
next
  assume a: "\<exists>key\<in>set (keysOf (deleteProp ''id'' input)).
          \<forall>object writeMatch.
            find (rows w) (getProp input ''id'') = Some object
            \<longrightarrow> updateGate r user (Some object) = Inr writeMatch
            \<longrightarrow> key \<notin> set (writeAllowedFields r writeMatch)"
  have ns: "fst (update r w input user) \<noteq> Return True"
    using update_success [of r w input user] a by blast
  then have "snd (update r w input user) = w" by (rule update_unchanged)
  moreover obtain e where "fst (update r w input user) = Throw e"
    using ns
    by (cases "fst (update r w input user)")
       (auto simp: update_def Let_def split: sum.splits option.splits if_splits prod.splits)
  ultimately show "\<exists>e. update r w input user = (Throw e, w)"
    by (metis prod.collapse)
next
  assume "modelInput r
        \<and> find (rows w) (getProp input ''id'') = Some object
        \<and> updateGate r user (Some object) = Inr writeMatch
        \<and> (\<exists>key\<in>set (keysOf (deleteProp ''id'' input)).
               key \<notin> set (writeAllowedFields r writeMatch))"
  then show "update r w input user
              = (Throw (AuthorizationError
                   (''You do not have write access on the following fields: ''
                      @ joinComma (filter (\<lambda>key. key \<notin> set (writeAllowedFields r writeMatch))
                                     (keysOf (deleteProp ''id'' input))))), w)"
    by (auto simp: update_def Let_def applyInput_Some filter_empty_conv)
qed

theorem update_all_or_nothing_witness:
  "modelInput (exampleResolver None)
   \<and> find (rows exampleWorld) (getProp [(''id'', JStr ''i1''), (''title'', JStr ''New''),
                                          (''secret'', JStr ''x''), (''bogus'', JStr ''y'')] ''id'')
       = Some (exampleRow ''i1'' ''u1'')
   \<and> updateGate (exampleResolver None) None (Some (exampleRow ''i1'' ''u1'')) = Inr None
   \<and> writeAllowedFields (exampleResolver None) None = [''title'', ''phase'']
   \<and> update (exampleResolver None) exampleWorld
         [(''id'', JStr ''i1''), (''title'', JStr ''New''), (''secret'', JStr ''x''),
          (''bogus'', JStr ''y'')] None
       = (Throw (AuthorizationError
            ''You do not have write access on the following fields: secret, bogus''),
          exampleWorld)"
  using update_all_or_nothing
          [where r = "exampleResolver None" and w = exampleWorld
             and input = "[(''id'', JStr ''i1''), (''title'', JStr ''New''),
                           (''secret'', JStr ''x''), (''bogus'', JStr ''y'')]"
             and user = None and object = "exampleRow ''i1'' ''u1''" and writeMatch = None]
  by (simp add: update_defs get_defs example_defs)

text \<open>
  C3 does not hold of the code: \<^verbatim>\<open>update\<close> saves whenever no input key is refused,
  with no test for a change (the test \<^verbatim>\<open>didModify\<close> of \<^verbatim>\<open>destroy\<close> and
  \<^verbatim>\<open>completeTask\<close> is missing here). Writing the title it already has, the first
  instance is saved all the same.
\<close>

theorem update_noop_still_saves:
  "getProp (exampleRow ''i1'' ''u1'') ''title'' = JStr ''On growth''
   \<and> update (exampleResolver None) exampleWorld
         [(''id'', JStr ''i1''), (''title'', JStr ''On growth'')] None
       = (Return True, exampleWorld\<lparr>writes := [exampleRow ''i1'' ''u1'']\<rparr>)"
  by (simp add: update_defs get_defs example_defs)

section \<open>Destroy\<close>

lemmas destroy_defs =
  destroy_def destroyGate_def filterState_def pick_def processInstanceMatches_def
  toLowerCase_def lowerChar_def save_def

lemma destroy_no_match:
  assumes "find (rows w) (JStr ident) = Some object"
    and "destroyGate r user object = None"
    and "\<forall>p\<in>set data. \<not> processInstanceMatches p ident"
  shows "\<exists>w1. destroy r w ident state user (Some data) deleteOk = (Return False, w1)
              \<and> engineCalls w1 = engineCalls w"
  using assms
  by (cases data)
     (auto simp: destroy_def Let_def save_def split: option.splits prod.splits)

text \<open>
  C6, as stated, fails: the second of two \<^verbatim>\<open>destroy\<close> calls need not return false.
  Under a rule that lets an instance be destroyed unless its phase is \<open>destroyed\<close>, the
  first call saves that phase and returns false; the second call, on the saved state, is
  refused at the destroy gate, though there is still no process instance.
\<close>

theorem destroy_twice_counterexample:
  "destroy (exampleResolver (Some destroyWhileLive)) exampleWorld ''i1''
       (Some [(''phase'', JStr ''destroyed'')]) None (Some []) True
     = (Return False, destroyedWorld)
   \<and> destroy (exampleResolver (Some destroyWhileLive)) destroyedWorld ''i1''
       (Some [(''phase'', JStr ''destroyed'')]) None (Some []) True
     = (Throw (AuthorizationError ''You do not have the rights allowed to destroy this object.''),
        destroyedWorld)"
  by (simp add: destroy_defs get_defs example_defs destroyWhileLive_def destroyedWorld_def
        Let_def)

text \<open>
  C6, amended: a \<^verbatim>\<open>destroy\<close> call on an existing instance, past the access and destroy
  gates, to which the engine lists no process instance matching the instance id, returns
  false, raises nothing and sends the engine no deletion; and calling it again, on the
  state the first call left, returns false again whenever the instance still passes the
  gates on that state.
\<close>

theorem destroy_without_process_instance:
  assumes "find (rows w) (JStr ident) = Some object"
    and "destroyGate r user object = None"
    and "\<forall>p\<in>set data. \<not> processInstanceMatches p ident"
  shows "\<exists>w1. destroy r w ident state user (Some data) deleteOk = (Return False, w1)
              \<and> engineCalls w1 = engineCalls w
              \<and> (\<forall>object1 state1.
                    find (rows w1) (JStr ident) = Some object1
                    \<and> destroyGate r user object1 = None
                    \<longrightarrow> fst (destroy r w1 ident state1 user (Some data) deleteOk)
                          = Return False)"
proof -
  obtain w1 where 1: "destroy r w ident state user (Some data) deleteOk = (Return False, w1)"
    and 2: "engineCalls w1 = engineCalls w"
    using destroy_no_match [OF assms] by blast
  have "fst (destroy r w1 ident state1 user (Some data) deleteOk) = Return False"
    if "find (rows w1) (JStr ident) = Some object1" "destroyGate r user object1 = None"
    for object1 state1
    using destroy_no_match [OF that assms(3), of state1 deleteOk] by auto
  with 1 2 show ?thesis by blast
qed

theorem destroy_without_process_instance_witness:
  "find (rows exampleWorld) (JStr ''i1'') = Some (exampleRow ''i1'' ''u1'')
   \<and> destroyGate (exampleResolver None) None (exampleRow ''i1'' ''u1'') = None
   \<and> \<not> processInstanceMatches \<lparr>pi_id = ''p7'', businessKey = ''i2''\<rparr> ''i1''
   \<and> destroy (exampleResolver None) exampleWorld ''i1'' (Some [(''phase'', JStr ''destroyed'')])
        None (Some [\<lparr>pi_id = ''p7'', businessKey = ''i2''\<rparr>]) True
       = (Return False, destroyedWorld)
   \<and> destroy (exampleResolver None) destroyedWorld ''i1'' (Some [(''phase'', JStr ''destroyed'')])
        None (Some [\<lparr>pi_id = ''p7'', businessKey = ''i2''\<rparr>]) True
       = (Return False, destroyedWorld)"
  using destroy_without_process_instance
          [where w = exampleWorld and ident = "''i1''" and object = "exampleRow ''i1'' ''u1''"
             and r = "exampleResolver None" and user = None
             and data = "[\<lparr>pi_id = ''p7'', businessKey = ''i2''\<rparr>]"
             and state = "Some [(''phase'', JStr ''destroyed'')]" and deleteOk = True]
  by (simp add: destroy_defs get_defs example_defs destroyedWorld_def)

section \<open>Tasks\<close>

lemmas task_defs =
  completeTask_def completeTaskGate_def filterTasks_def getTasks_def

lemma map_of_pick_fold:
  "map_of (fold (\<lambda>k acc. case map_of ob k of None \<Rightarrow> acc | Some v \<Rightarrow> assign k v acc) ks acc0) k
     = (if k \<in> set ks \<and> map_of ob k \<noteq> None then map_of ob k else map_of acc0 k)"
  by (induction ks arbitrary: acc0) (auto simp: map_of_assign split: option.splits)

lemma map_of_pick: "map_of (pick ob ks) k = (if k \<in> set ks then map_of ob k else None)"
  by (simp add: pick_def map_of_pick_fold)

lemma keys_pick: "set (keysOf (pick ob ks)) = set ks \<inter> set (keysOf ob)"
  by (auto simp: keysOf_def dom_map_of_conv_image_fst [symmetric] dom_def map_of_pick)

lemma getProp_pick: "getProp (pick ob ks) k = (if k \<in> set ks then getProp ob k else JUndefined)"
  by (simp add: getProp_def map_of_pick)

lemma applyStateVars_vars:
  "map_of (snd (snd (applyStateVars fs ks inst dm nv))) k
     = (if k \<in> set ks \<and> forwardedValue (getProp fs k)
        then Some (JObj [(''value'', getProp fs k)]) else map_of nv k)"
  by (induction ks arbitrary: inst dm nv) (auto simp: Let_def map_of_assign)

lemma applyStateVars_keys:
  "set (keysOf (snd (snd (applyStateVars fs ks inst dm []))))
     = {k \<in> set ks. forwardedValue (getProp fs k)}"
  by (auto simp: keysOf_def dom_map_of_conv_image_fst [symmetric] dom_def applyStateVars_vars
        split: if_splits)

lemma applyStateVars_value:
  "k \<in> set ks \<Longrightarrow> forwardedValue (getProp fs k) \<Longrightarrow>
     getProp (snd (snd (applyStateVars fs ks inst dm nv))) k = JObj [(''value'', getProp fs k)]"
  by (simp add: getProp_def applyStateVars_vars)

lemma engineCalls_save: "engineCalls (save ob w) = engineCalls w"
  by (simp add: save_def)

lemma filterState_Some:
  "filterState r (Some state) =
     (if (case stateFields r of None \<Rightarrow> [] | Some fs \<Rightarrow> fs) \<noteq> []
      then Some (pick state (case stateFields r of None \<Rightarrow> [] | Some fs \<Rightarrow> fs)) else None)"
  by (simp add: filterState_def Let_def)

text \<open>
  C8, as stated, fails: a boolean is a scalar, and \<^verbatim>\<open>completeTask\<close> does not forward
  it (the state field \<open>approved\<close> is applied to the instance, but only \<open>phase\<close> reaches
  the payload; \<open>title\<close>, no state field, is dropped beforehand). And a call stopped at a
  gate forwards nothing at all.
\<close>

theorem complete_task_boolean_counterexample:
  "completeTask (exampleResolver None) exampleWorld ''i1'' ''t1''
       (Some [(''approved'', JBool True), (''phase'', JStr ''review''), (''title'', JStr ''X'')])
       None (Some [\<lparr>task_id = ''t1'', taskDefinitionKey = ''review''\<rparr>]) True
     = (Return True,
        \<lparr>rows = [[(''id'', JStr ''i1''), (''title'', JStr ''On growth''),
                   (''secret'', JStr ''s3cr3t''), (''phase'', JStr ''review''),
                   (''submitterId'', JStr ''u1''), (''approved'', JBool True)],
                  exampleRow ''i2'' ''u2''],
         writes = [[(''id'', JStr ''i1''), (''title'', JStr ''On growth''),
                    (''secret'', JStr ''s3cr3t''), (''phase'', JStr ''review''),
                    (''submitterId'', JStr ''u1''), (''approved'', JBool True)]],
         engineCalls = [CompleteTask ''t1''
                          (Some [(''phase'', JObj [(''value'', JStr ''review'')])])]\<rparr>)
   \<and> completeTask (exampleResolver (Some (allowAllBut Task))) exampleWorld ''i1'' ''t1''
       (Some [(''phase'', JStr ''review'')])
       None (Some [\<lparr>task_id = ''t1'', taskDefinitionKey = ''review''\<rparr>]) True
     = (Throw (AuthorizationError ''You do not have the rights allowed to destroy this object.''),
        exampleWorld)
   \<and> engineCalls exampleWorld = []
   \<and> scalarValue (JBool True) \<and> \<not> forwardedValue (JBool True)"
  by (simp add: task_defs destroy_defs get_defs example_defs Let_def)

text \<open>
  C8, amended: a \<^verbatim>\<open>completeTask\<close> call with caller-supplied state that gets past its
  checks (both ids given, the instance and the task found, the access and task gates
  passed, the task allowed) sends the engine exactly one completion request for the task.
  The state is first cut down to the schema's state fields, whatever the write policy;
  if none of them is supplied the request carries no variables, and otherwise its
  variables are exactly the supplied state fields whose value is a string, a number or
  null, each with that value.
\<close>

theorem complete_task_variables:
  fixes state :: obj
  assumes "ident \<noteq> []" and "taskId \<noteq> []"
    and "find (rows w) (JStr ident) = Some found"
    and "completeTaskGate r user found = Inr tasksAclMatch"
    and "filterTasks tasksAclMatch (filter (\<lambda>t. task_id t = taskId) listed) \<noteq> []"
  defines "allowedKeys \<equiv> (case stateFields r of None \<Rightarrow> [] | Some fs \<Rightarrow> fs)"
  shows "\<exists>variables w1.
           completeTask r w ident taskId (Some state) user (Some listed) completeOk
             = (if completeOk then Return True
                else Throw (Error
                  ''Unable to complete task for instance due to business engine error.''), w1)
           \<and> engineCalls w1 = engineCalls w @ [CompleteTask taskId variables]
           \<and> (case variables of
                None \<Rightarrow> set allowedKeys \<inter> set (keysOf state) = {}
              | Some vars \<Rightarrow>
                  set (keysOf vars)
                    = {k \<in> set allowedKeys \<inter> set (keysOf state). forwardedValue (getProp state k)}
                  \<and> (\<forall>k\<in>set (keysOf vars). getProp vars k = JObj [(''value'', getProp state k)]))"
proof -
  have ne: "filter (\<lambda>t. task_id t = taskId) listed \<noteq> []"
    using assms(5) by (auto simp: filterTasks_def filter_empty_conv split: option.splits)
  define fs where "fs = pick state allowedKeys"
  define out where "out = (if completeOk then Return True
                else Throw (Error
                  ''Unable to complete task for instance due to business engine error.''))"
  have kfs: "set (keysOf fs) = set allowedKeys \<inter> set (keysOf state)"
    by (simp add: fs_def keys_pick)
  have vfs: "getProp fs k = getProp state k" if "k \<in> set (keysOf fs)" for k
    using that kfs by (simp add: fs_def getProp_pick)
  consider (none) "allowedKeys = [] \<or> keysOf fs = []"
    | (some) "allowedKeys \<noteq> []" "keysOf fs \<noteq> []"
    by blast
  then show ?thesis
  proof cases
    case none
    then have "completeTask r w ident taskId (Some state) user (Some listed) completeOk
                 = (out, w\<lparr>engineCalls := engineCalls w @ [CompleteTask taskId None]\<rparr>)"
      using assms(1-5) ne
      by (auto simp: completeTask_def Let_def filterState_Some fs_def out_def
            allowedKeys_def [symmetric])
    moreover have "set allowedKeys \<inter> set (keysOf state) = {}"
      using none kfs by auto
    ultimately show ?thesis unfolding out_def
      by (intro exI [of _ None]
            exI [of _ "w\<lparr>engineCalls := engineCalls w @ [CompleteTask taskId None]\<rparr>"]) simp
  next
    case some
    define res where "res = applyStateVars fs (keysOf fs) found False []"
    define vars where "vars = snd (snd res)"
    define w1 where "w1 = (if fst (snd res) then save (fst res) w else w)"
    have "completeTask r w ident taskId (Some state) user (Some listed) completeOk
                 = (out, w1\<lparr>engineCalls := engineCalls w1 @ [CompleteTask taskId (Some vars)]\<rparr>)"
      using assms(1-5) ne some
      by (simp add: completeTask_def Let_def filterState_Some fs_def [symmetric] out_def
            allowedKeys_def [symmetric] case_prod_beta res_def [symmetric] vars_def w1_def)
    moreover have "engineCalls w1 = engineCalls w"
      by (simp add: w1_def engineCalls_save)
    moreover have "set (keysOf vars)
                    = {k \<in> set allowedKeys \<inter> set (keysOf state). forwardedValue (getProp state k)}"
      using kfs vfs by (auto simp: vars_def res_def applyStateVars_keys)
    moreover have "\<forall>k\<in>set (keysOf vars). getProp vars k = JObj [(''value'', getProp state k)]"
      using vfs by (auto simp: vars_def res_def applyStateVars_keys applyStateVars_value)
    ultimately show ?thesis unfolding out_def
      by (intro exI [of _ "Some vars"]
            exI [of _ "w1\<lparr>engineCalls := engineCalls w1 @ [CompleteTask taskId (Some vars)]\<rparr>"])
         simp
  qed
qed

theorem complete_task_variables_witness:
  "find (rows exampleWorld) (JStr ''i1'') = Some (exampleRow ''i1'' ''u1'')
   \<and> completeTaskGate (exampleResolver None) None (exampleRow ''i1'' ''u1'') = Inr None
   \<and> filterTasks None (filter (\<lambda>t. task_id t = ''t1'')
                         [\<lparr>task_id = ''t1'', taskDefinitionKey = ''review''\<rparr>]) \<noteq> []
   \<and> stateFields (exampleResolver None) = Some [''phase'', ''approved'']
   \<and> engineCalls (snd (completeTask (exampleResolver None) exampleWorld ''i1'' ''t1''
       (Some [(''approved'', JNull), (''phase'', JStr ''review''), (''title'', JStr ''X'')])
       None (Some [\<lparr>task_id = ''t1'', taskDefinitionKey = ''review''\<rparr>]) True))
     = [CompleteTask ''t1''
          (Some [(''phase'', JObj [(''value'', JStr ''review'')]),
                 (''approved'', JObj [(''value'', JNull)])])]"
  using complete_task_variables
          [where ident = "''i1''" and taskId = "''t1''" and w = exampleWorld
             and found = "exampleRow ''i1'' ''u1''" and r = "exampleResolver None"
             and user = None and tasksAclMatch = None
             and listed = "[\<lparr>task_id = ''t1'', taskDefinitionKey = ''review''\<rparr>]"
             and state = "[(''approved'', JNull), (''phase'', JStr ''review''),
                           (''title'', JStr ''X'')]"
             and completeOk = True]
  by (simp add: task_defs destroy_defs get_defs example_defs Let_def)

text \<open>
  C9 does not hold of the code. Asked for an instance that does not exist, \<^verbatim>\<open>getTasks\<close>
  throws the \<^verbatim>\<open>NotFoundError\<close> and \<^verbatim>\<open>get\<close> returns one, but \<^verbatim>\<open>destroy\<close> and
  \<^verbatim>\<open>completeTask\<close> throw a plain \<^verbatim>\<open>Error\<close> with the message of \<^verbatim>\<open>getTasks\<close>.
\<close>

theorem not_found_outcomes:
  "find (rows exampleWorld) (JStr ''i9'') = None
   \<and> get (exampleResolver None) exampleWorld ''i9'' [''title''] None
       = Return (ErrorObject (NotFoundError ''Instance not found.''))
   \<and> getTasks (exampleResolver None) exampleWorld ''i9'' None (Some [])
       = Throw (NotFoundError ''Instance with identifier not found.'')
   \<and> destroy (exampleResolver None) exampleWorld ''i9'' None None (Some []) True
       = (Throw (Error ''Instance with identifier not found.''), exampleWorld)
   \<and> completeTask (exampleResolver None) exampleWorld ''i9'' ''t1'' None None
         (Some [\<lparr>task_id = ''t1'', taskDefinitionKey = ''review''\<rparr>]) True
       = (Throw (Error ''Instance with identifier not found.''), exampleWorld)"
  by (simp add: task_defs destroy_defs get_defs example_defs Let_def)

section \<open>List\<close>

lemmas list_defs =
  list_def runQuery_def filterStatements_def ownerFieldStatements_def sortOrdering_def
  hasOwnProperty_def

lemma owner_group_holds:
  "list_ex (holdsStatement row) (ownerFieldStatements r u)
     = (\<exists>f\<in>set (ownerFields r). getProp row f = JStr (user_id u))"
  by (auto simp: ownerFieldStatements_def list_ex_iff)

text \<open>
  C5 does not hold of the code: when the schema declares no owner field, \<^verbatim>\<open>list\<close> adds
  no owner constraint at all. With the restrictions \<open>owner\<close> alone, a caller who owns
  neither row is given both by \<^verbatim>\<open>list\<close>, while \<^verbatim>\<open>get\<close> refuses the same caller
  each of them under the same policy.
\<close>

theorem list_without_owner_fields_returns_all:
  "list ((exampleResolver (Some ownerOnly))\<lparr>ownerFields := []\<rparr>) exampleWorld None None
       [''title''] (Some (Identity ''u1''))
     = Return [[(''id'', JStr ''i1''), (''title'', JStr ''On growth'')],
               [(''id'', JStr ''i2''), (''title'', JStr ''On growth'')]]
   \<and> allowedRestrictions (ownerOnly [''anonymous'', ''administrator''] Access None)
       = Some [''owner'']
   \<and> \<not> snd (userToAclTargets ((exampleResolver (Some ownerOnly))\<lparr>ownerFields := []\<rparr>)
               (Some (Identity ''u1'')) (Some (exampleRow ''i1'' ''u1'')))
   \<and> \<not> snd (userToAclTargets ((exampleResolver (Some ownerOnly))\<lparr>ownerFields := []\<rparr>)
               (Some (Identity ''u1'')) (Some (exampleRow ''i2'' ''u2'')))
   \<and> get ((exampleResolver (Some ownerOnly))\<lparr>ownerFields := []\<rparr>) exampleWorld ''i1''
         [''title''] (Some (Identity ''u1''))
       = Throw (AuthorizationError ''You do not have access to this object.'')
   \<and> get ((exampleResolver (Some ownerOnly))\<lparr>ownerFields := []\<rparr>) exampleWorld ''i2''
         [''title''] (Some (Identity ''u1''))
       = Throw (AuthorizationError ''You do not have access to this object.'')"
  by (simp add: list_defs get_defs example_defs Let_def)

text \<open>
  What \<^verbatim>\<open>list\<close> does on a schema with at least one owner field, when the restrictions of
  the list-level access match lack \<open>all\<close>: with no identity the call fails with an
  authorization error; for an identity whose access is allowed it returns, redacted row by
  row and in the order the storage engine gives the requested sort, exactly the rows that
  satisfy every filter statement and on which the join field of some owner field holds the
  caller's id.
\<close>

lemma list_owner_constraint:
  assumes "acl r = Some rules"
    and "allowedRestrictions (rules (fst (userToAclTargets r user None)) Access None)
           = Some restrictions"
    and "''all'' \<notin> set restrictions"
  shows "(user = None \<longrightarrow>
            (\<exists>msg. list r w flt sorting topLevelFields user = Throw (AuthorizationError msg)))
       \<and> (\<forall>u. user = Some u
                \<and> allow (rules (fst (userToAclTargets r user None)) Access None)
                \<and> ownerFields r \<noteq> [] \<longrightarrow>
              list r w flt sorting topLevelFields user
                = Return (map (\<lambda>object. getInstance r object
                                          (fst (userToAclTargets r user (Some object)))
                                          topLevelFields)
                            ((if sortOrdering r sorting = [] then (\<lambda>table. table)
                              else queryOrder r (sortOrdering r sorting))
                               (filter (\<lambda>row. list_all (holdsStatement row) (filterStatements r flt)
                                              \<and> (\<exists>f\<in>set (ownerFields r).
                                                    getProp row f = JStr (user_id u)))
                                  (rows w)))))"
  using assms
  by (auto simp: list_def runQuery_def Let_def owner_group_holds)

lemma list_owner_constraint_example:
  "acl (exampleResolver (Some ownerOnly)) = Some ownerOnly
   \<and> allowedRestrictions
        (ownerOnly (fst (userToAclTargets (exampleResolver (Some ownerOnly))
                           (Some (Identity ''u1'')) None)) Access None) = Some [''owner'']
   \<and> ownerFields (exampleResolver (Some ownerOnly)) \<noteq> []
   \<and> snd (userToAclTargets (exampleResolver (Some ownerOnly)) (Some (Identity ''u1''))
            (Some (exampleRow ''i1'' ''u1'')))
   \<and> \<not> snd (userToAclTargets (exampleResolver (Some ownerOnly)) (Some (Identity ''u1''))
               (Some (exampleRow ''i2'' ''u2'')))
   \<and> list (exampleResolver (Some ownerOnly)) exampleWorld None None [''title'', ''secret'']
        (Some (Identity ''u1''))
       = Return [[(''id'', JStr ''i1''), (''title'', JStr ''On growth''),
                  (''restrictedFields'', JArr [JStr ''secret''])]]
   \<and> list (exampleResolver (Some ownerOnly)) exampleWorld
        (Some [(''phase'', JStr ''review'')]) None [''title''] (Some (Identity ''u1''))
       = Return []
   \<and> list (exampleResolver (Some ownerOnly)) exampleWorld None None [''title''] None
       = Throw (AuthorizationError ''You must be a valid user '')"
  using list_owner_constraint
          [where r = "exampleResolver (Some ownerOnly)" and rules = ownerOnly
             and user = "Some (Identity ''u1'')" and restrictions = "[''owner'']"
             and w = exampleWorld and flt = None and sorting = None
             and topLevelFields = "[''title'', ''secret'']"]
  by (simp add: list_defs get_defs example_defs Let_def)

end
